theory Spec2Isabelle
  imports Main
begin

section \<open>Strings\<close>

text \<open>
  Go strings are byte sequences; \<^typ>\<open>string\<close> is a list of 8-bit characters, so the two
  agree byte for byte. The functions of Go's \<^verbatim>\<open>strings\<close> package that
  \<^verbatim>\<open>bridge/provisioning.go\<close> calls are written out here under their Go names.
\<close>

definition HasPrefix :: "string \<Rightarrow> string \<Rightarrow> bool" where
  "HasPrefix s pfx = (take (length pfx) s = pfx)"

definition HasSuffix :: "string \<Rightarrow> string \<Rightarrow> bool" where
  "HasSuffix s sfx = (length sfx \<le> length s \<and> drop (length s - length sfx) s = sfx)"

text \<open>
  \<^verbatim>\<open>strings.Split(s, ",")\<close>: the pieces of \<open>s\<close> between the separators, one piece
  more than there are separators (a string without separator is its own single piece, the
  empty string gives one empty piece). The separator is a single byte here, as at the call.
\<close>

fun Split :: "string \<Rightarrow> char \<Rightarrow> string list" where
  "Split [] sep = [[]]"
| "Split (c # cs) sep =
     (if c = sep then [] # Split cs sep
      else (case Split cs sep of [] \<Rightarrow> [[c]] | p # ps \<Rightarrow> (c # p) # ps))"

text \<open>
  \<^verbatim>\<open>strings.TrimSpace\<close> removes leading and trailing white space as Unicode defines it.
  On bytes these are the six ASCII characters tab, line feed, vertical tab, form feed, carriage
  return and space, and the UTF-8 encodings of U+0085, U+00A0, U+1680, U+2000 to U+200A, U+2028,
  U+2029, U+202F, U+205F and U+3000. A byte sequence that is not a valid encoding decodes to
  the replacement rune, which is no white space, so trimming stops there.
\<close>

definition asciiSpace :: "char list" where
  "asciiSpace = [CHR 0x09, CHR 0x0A, CHR 0x0B, CHR 0x0C, CHR 0x0D, CHR 0x20]"

definition unicodeSpace :: "string list" where
  "unicodeSpace =
     [[CHR 0xC2, CHR 0x85], [CHR 0xC2, CHR 0xA0], [CHR 0xE1, CHR 0x9A, CHR 0x80],
      [CHR 0xE2, CHR 0x80, CHR 0x80], [CHR 0xE2, CHR 0x80, CHR 0x81],
      [CHR 0xE2, CHR 0x80, CHR 0x82], [CHR 0xE2, CHR 0x80, CHR 0x83],
      [CHR 0xE2, CHR 0x80, CHR 0x84], [CHR 0xE2, CHR 0x80, CHR 0x85],
      [CHR 0xE2, CHR 0x80, CHR 0x86], [CHR 0xE2, CHR 0x80, CHR 0x87],
      [CHR 0xE2, CHR 0x80, CHR 0x88], [CHR 0xE2, CHR 0x80, CHR 0x89],
      [CHR 0xE2, CHR 0x80, CHR 0x8A], [CHR 0xE2, CHR 0x80, CHR 0xA8],
      [CHR 0xE2, CHR 0x80, CHR 0xA9], [CHR 0xE2, CHR 0x80, CHR 0xAF],
      [CHR 0xE2, CHR 0x81, CHR 0x9F], [CHR 0xE3, CHR 0x80, CHR 0x80]]"

text \<open>The number of bytes of the white-space rune \<open>s\<close> starts with; 0 when it starts with none.\<close>

definition leadingSpace :: "string list \<Rightarrow> string \<Rightarrow> nat" where
  "leadingSpace wide s =
     (case s of
        [] \<Rightarrow> 0
      | c # cs \<Rightarrow>
          if c \<in> set asciiSpace then 1
          else (case find (HasPrefix s) wide of None \<Rightarrow> 0 | Some w \<Rightarrow> length w))"

function TrimLeftSpace :: "string list \<Rightarrow> string \<Rightarrow> string" where
  "TrimLeftSpace wide s =
     (if leadingSpace wide s = 0 \<or> s = [] then s
      else TrimLeftSpace wide (drop (leadingSpace wide s) s))"
  by pat_completeness auto
termination
  by (relation "measure (\<lambda>(wide, s). length s)") auto

declare TrimLeftSpace.simps [simp del]

text \<open>
  Trimming on the right reads the string backwards: a white-space rune at the end of \<open>s\<close> is
  its reversed encoding at the start of \<open>rev s\<close>.
\<close>

definition TrimSpace :: "string \<Rightarrow> string" where
  "TrimSpace s =
     rev (TrimLeftSpace (map rev unicodeSpace) (rev (TrimLeftSpace unicodeSpace s)))"

text \<open>
  \<^verbatim>\<open>strings.ToLower\<close> on the ASCII letters. Bytes outside ASCII are left as they are,
  where Go maps whole runes; the handlers only compare the result with the ASCII word
  \<^verbatim>\<open>false\<close>, and none of its letters is the lower case of a rune outside ASCII, so
  the comparison comes out the same.
\<close>

definition lowerByte :: "char \<Rightarrow> char" where
  "lowerByte c =
     (let n = (of_char c :: nat) in if 65 \<le> n \<and> n \<le> 90 then char_of (n + 32) else c)"

definition ToLower :: "string \<Rightarrow> string" where
  "ToLower s = map lowerByte s"

section \<open>Requests and responses\<close>

text \<open>
  What the handlers read of an \<^verbatim>\<open>http.Request\<close>: the method, the path of the URL,
  the headers and the query parameters. \<^verbatim>\<open>Header.Get\<close> and
  \<^verbatim>\<open>URL.Query().Get\<close> return the empty string for a key that is absent.
\<close>

record request =
  Method :: string
  Path :: string
  Header :: "string \<rightharpoonup> string"
  Query :: "string \<rightharpoonup> string"

definition header_get :: "request \<Rightarrow> string \<Rightarrow> string" where
  "header_get r k = (case Header r k of None \<Rightarrow> [] | Some v \<Rightarrow> v)"

definition query_get :: "request \<Rightarrow> string \<Rightarrow> string" where
  "query_get r k = (case Query r k of None \<Rightarrow> [] | Some v \<Rightarrow> v)"

text \<open>
  The JSON bodies: the structs \<^verbatim>\<open>Error\<close> (success, error, errcode) and
  \<^verbatim>\<open>Response\<close> (success, status), and maps from keys to values.
\<close>

datatype jvalue = JString string | JNumber int | JBool bool

datatype body =
    ErrorJSON bool string string
  | ResponseJSON bool string
  | MapJSON "(string \<times> jvalue) list"

type_synonym response = "nat \<times> body"

definition jsonResponse :: "nat \<Rightarrow> body \<Rightarrow> response" where
  "jsonResponse status response = (status, response)"

section \<open>The Credential Gate: authMiddleware\<close>

definition SecWebSocketProtocol :: string where
  "SecWebSocketProtocol = ''com.gitlab.beeper.discord''"

text \<open>
  The loop over the entries of the \<^verbatim>\<open>Sec-WebSocket-Protocol\<close> offer: the first entry
  that, trimmed, starts with the protocol identifier and a dash gives the token (what follows
  the dash) and ends the loop; with no such entry \<open>auth\<close> stays as it was.
\<close>

fun scanParts :: "string list \<Rightarrow> string \<Rightarrow> string" where
  "scanParts [] auth = auth"
| "scanParts (part # authParts) auth =
     (if HasPrefix (TrimSpace part) (SecWebSocketProtocol @ ''-'')
      then drop (length (SecWebSocketProtocol @ ''-'')) (TrimSpace part)
      else scanParts authParts auth)"

text \<open>The value of \<open>auth\<close> that is compared with the shared secret.\<close>

definition authToken :: "request \<Rightarrow> string" where
  "authToken r =
     (let auth = header_get r ''Authorization'' in
      if auth = [] \<and> HasSuffix (Path r) ''/login''
      then scanParts (Split (header_get r ''Sec-WebSocket-Protocol'') CHR '','') auth
      else if HasPrefix auth ''Bearer '' then drop (length ''Bearer '') auth
      else auth)"

text \<open>
  What the middleware does with a request, in order: it writes a response of its own, looks
  the caller up by the \<^verbatim>\<open>user_id\<close> parameter, hands the request to the wrapped
  handler, and logs method, path, caller and the status the handler set. The wrapped handler
  is a parameter: \<open>h userID r\<close> is the status it passes to \<^verbatim>\<open>WriteHeader\<close>, if it
  calls it; the wrapper starts at 200.
\<close>

datatype gate_step =
    Respond response
  | GetUserByMXID string
  | ServeHTTP string
  | Infofln string string string nat

definition authMiddleware ::
  "string \<Rightarrow> (string \<Rightarrow> request \<Rightarrow> nat option) \<Rightarrow> request \<Rightarrow> gate_step list" where
  "authMiddleware SharedSecret h r =
     (if authToken r \<noteq> SharedSecret
      then [Respond (jsonResponse 403
              (MapJSON [(''error'', JString ''Invalid auth token''),
                        (''errcode'', JString ''M_FORBIDDEN'')]))]
      else
        (let userID = query_get r ''user_id'';
             statusCode = (case h userID r of None \<Rightarrow> 200 | Some s \<Rightarrow> s)
         in [GetUserByMXID userID, ServeHTTP userID,
             Infofln (Method r) (Path r) userID statusCode]))"

section \<open>The session and the collaborators\<close>

text \<open>
  The fields of \<^verbatim>\<open>User\<close> that the handlers read or assign: the external identity
  \<^verbatim>\<open>ID\<close> and the connection \<^verbatim>\<open>Session\<close> (absent when nil), of which only the
  two heartbeat times are read. Whatever else a session holds is the record's extension.
\<close>

record discord_session =
  LastHeartbeatAck :: nat
  LastHeartbeatSent :: nat

record user =
  ID :: string
  Session :: "discord_session option"

text \<open>An error is the text its \<^verbatim>\<open>Error()\<close> method gives.\<close>

type_synonym error = string

text \<open>
  The methods of \<^verbatim>\<open>User\<close> and of the remote authentication client live outside
  \<^verbatim>\<open>provisioning.go\<close>; they are parameters. A method that may change the session
  returns the session it leaves. Within one handshake \<^verbatim>\<open>remoteauth.New\<close>,
  \<^verbatim>\<open>Dial\<close> and \<^verbatim>\<open>Result\<close> are each called at most once, so each is the
  result of that call: \<^verbatim>\<open>Result\<close> gives the error or the pair of
  \<^verbatim>\<open>UserID\<close> and \<^verbatim>\<open>Token\<close>.
\<close>

record 'a collaborators =
  LoggedIn :: "'a user_scheme \<Rightarrow> bool"
  Connected :: "'a user_scheme \<Rightarrow> bool"
  Connect :: "'a user_scheme \<Rightarrow> error option \<times> 'a user_scheme"
  Disconnect :: "'a user_scheme \<Rightarrow> error option \<times> 'a user_scheme"
  Login :: "string \<Rightarrow> 'a user_scheme \<Rightarrow> error option \<times> 'a user_scheme"
  Logout :: "'a user_scheme \<Rightarrow> error option \<times> 'a user_scheme"
  Update :: "'a user_scheme \<Rightarrow> 'a user_scheme"
  New :: "error option"
  Dial :: "error option"
  Result :: "error + string \<times> string"

text \<open>The collaborator operations a handler invokes, recorded in the order of the calls.\<close>

datatype call =
    UserConnect
  | UserDisconnect
  | UserLogin string
  | UserLogout
  | UserUpdate
  | RemoteauthNew
  | ClientDial
  | ClientResult

section \<open>The Command Dispatcher: disconnect, reconnect, logout\<close>

text \<open>
  A handler gets the session the gate attached to the request and gives its response, the
  session as it leaves it, and the operations it invoked on it.
\<close>

record 'a served =
  reply :: response
  session :: "'a user_scheme"
  invoked :: "call list"

definition disconnect :: "'a collaborators \<Rightarrow> 'a user_scheme \<Rightarrow> 'a served" where
  "disconnect env u =
     (if \<not> Connected env u
      then \<lparr>reply = jsonResponse 409
               (ErrorJSON False ''You're not connected to discord'' ''not connected''),
            session = u, invoked = []\<rparr>
      else
        (case Disconnect env u of
           (Some err, u') \<Rightarrow>
             \<lparr>reply = jsonResponse 500
                (ErrorJSON False ''Failed to disconnect from discord'' ''failed to disconnect''),
              session = u', invoked = [UserDisconnect]\<rparr>
         | (None, u') \<Rightarrow>
             \<lparr>reply = jsonResponse 200 (ResponseJSON True ''Disconnected from Discord''),
              session = u', invoked = [UserDisconnect]\<rparr>))"

definition reconnect :: "'a collaborators \<Rightarrow> 'a user_scheme \<Rightarrow> 'a served" where
  "reconnect env u =
     (if Connected env u
      then \<lparr>reply = jsonResponse 409
               (ErrorJSON False ''You're already connected to discord'' ''already connected''),
            session = u, invoked = []\<rparr>
      else
        (case Connect env u of
           (Some err, u') \<Rightarrow>
             \<lparr>reply = jsonResponse 500
                (ErrorJSON False ''Failed to connect to discord'' ''failed to connect''),
              session = u', invoked = [UserConnect]\<rparr>
         | (None, u') \<Rightarrow>
             \<lparr>reply = jsonResponse 200 (ResponseJSON True ''Connected to Discord''),
              session = u', invoked = [UserConnect]\<rparr>))"

definition logout :: "'a collaborators \<Rightarrow> request \<Rightarrow> 'a user_scheme \<Rightarrow> 'a served" where
  "logout env r u =
     (let force = (ToLower (query_get r ''force'') \<noteq> ''false'') in
      if \<not> LoggedIn env u
      then \<lparr>reply = jsonResponse 404 (ErrorJSON False ''You're not logged in'' ''not logged in''),
            session = u, invoked = []\<rparr>
      else if Session u = None
      then (if force
            then \<lparr>reply = jsonResponse 200 (ResponseJSON True ''Logged out successfully.''),
                  session = u, invoked = []\<rparr>
            else \<lparr>reply = jsonResponse 404
                     (ErrorJSON False ''You're not logged in'' ''not logged in''),
                  session = u, invoked = []\<rparr>)
      else
        (case Logout env u of
           (Some err, u') \<Rightarrow>
             if \<not> force
             then \<lparr>reply = jsonResponse 500
                      (ErrorJSON False (''Unknown error while logging out: '' @ err) err),
                   session = u', invoked = [UserLogout]\<rparr>
             else \<lparr>reply = jsonResponse 200 (ResponseJSON True ''Logged out successfully.''),
                   session = u', invoked = [UserLogout]\<rparr>
         | (None, u') \<Rightarrow>
             \<lparr>reply = jsonResponse 200 (ResponseJSON True ''Logged out successfully.''),
              session = u', invoked = [UserLogout]\<rparr>))"

section \<open>The Login Orchestrator: login\<close>

text \<open>
  The state of one run of the handler: the session, what was done on the websocket (the
  messages written with \<^verbatim>\<open>WriteJSON\<close> and the deferred \<^verbatim>\<open>Close\<close>, in order),
  the collaborator calls made, whether the handler has closed \<^verbatim>\<open>qrChan\<close> and
  \<^verbatim>\<open>doneChan\<close>, and whether the context \<^verbatim>\<open>ctx\<close> is cancelled.
\<close>

datatype ws_op = WriteJSON body | Close

record 'a handshake =
  usr :: "'a user_scheme"
  ws :: "ws_op list"
  calls :: "call list"
  qrChan_closed :: bool
  doneChan_closed :: bool
  cancelled :: bool

definition start :: "'a user_scheme \<Rightarrow> 'a handshake" where
  "start u = \<lparr>usr = u, ws = [], calls = [], qrChan_closed = False, doneChan_closed = False,
              cancelled = False\<rparr>"

definition writeJSON :: "body \<Rightarrow> 'a handshake \<Rightarrow> 'a handshake" where
  "writeJSON msg h = h\<lparr>ws := ws h @ [WriteJSON msg]\<rparr>"

definition called :: "call \<Rightarrow> 'a handshake \<Rightarrow> 'a handshake" where
  "called c h = h\<lparr>calls := calls h @ [c]\<rparr>"

text \<open>
  The close handler registered with \<^verbatim>\<open>SetCloseHandler\<close>: it cancels \<open>ctx\<close>. Nothing
  else in the handler cancels it (the context has no deadline).
\<close>

definition closeHandler :: "'a handshake \<Rightarrow> 'a handshake" where
  "closeHandler h = h\<lparr>cancelled := True\<rparr>"

text \<open>
  What happens while the handler is in its loop, one entry per event:
  \<^item> \<open>PeerClose\<close>: the background reader meets the peer's close frame and the close handler
    runs;
  \<^item> \<open>RecvQr v\<close>: the \<^verbatim>\<open>select\<close> takes the \<^verbatim>\<open>qrChan\<close> case; \<open>v\<close> is the code
    the client sends, \<open>None\<close> when the receive gives no value (\<open>ok\<close> is false);
  \<^item> \<open>RecvDone\<close>: the \<^verbatim>\<open>select\<close> takes the \<^verbatim>\<open>doneChan\<close> case;
  \<^item> \<open>CtxDone\<close>: the \<^verbatim>\<open>select\<close> takes the \<^verbatim>\<open>ctx.Done()\<close> case.

  Go's \<^verbatim>\<open>select\<close> takes any one of the cases that are ready, so the schedule of events
  is an input. A close that arrives before the loop is entered is the first entry of the
  schedule: nothing reads \<open>ctx\<close> before the loop but the dial, whose result is a parameter.
  A channel the handler has closed gives no value any more, and \<^verbatim>\<open>ctx.Done()\<close> is
  ready only once \<open>ctx\<close> is cancelled: an entry \<open>CtxDone\<close> before that leaves the handler
  waiting. When the schedule is used up the handler is still blocked in the
  \<^verbatim>\<open>select\<close>.
\<close>

datatype event = PeerClose | RecvQr "string option" | RecvDone | CtxDone

datatype outcome = Returned | Waiting

text \<open>
  The messages to the peer: the \<^verbatim>\<open>Error\<close> struct sent when connecting fails, the map
  that carries a code with its advisory timeout, and the map that reports success.
\<close>

definition connectionError :: body where
  "connectionError = ErrorJSON False ''Failed to connect to Discord'' ''connection error''"

definition codeMessage :: "string \<Rightarrow> body" where
  "codeMessage qrCode = MapJSON [(''code'', JString qrCode), (''timeout'', JNumber 120)]"

definition successMessage :: "string \<Rightarrow> body" where
  "successMessage userID = MapJSON [(''success'', JBool True), (''id'', JString userID)]"

text \<open>The \<^verbatim>\<open>doneChan\<close> case of the loop; every path through it returns.\<close>

definition doneCase :: "'a collaborators \<Rightarrow> 'a handshake \<Rightarrow> 'a handshake" where
  "doneCase env h =
     (case Result env of
        Inl err \<Rightarrow> writeJSON connectionError (called ClientResult h)
      | Inr (userID, token) \<Rightarrow>
          (let h1 = (called ClientResult h)\<lparr>usr := (usr h)\<lparr>ID := userID\<rparr>\<rparr>;
               h2 = (called UserUpdate h1)\<lparr>usr := Update env (usr h1)\<rparr>;
               h3 = (called (UserLogin token) h2)\<lparr>usr := snd (Login env token (usr h2))\<rparr>
           in case fst (Login env token (usr h2)) of
                Some err \<Rightarrow> writeJSON connectionError h3
              | None \<Rightarrow> writeJSON (successMessage (ID (usr h3))) h3))"

fun loginLoop :: "'a collaborators \<Rightarrow> event list \<Rightarrow> 'a handshake \<Rightarrow> outcome \<times> 'a handshake" where
  "loginLoop env [] h = (Waiting, h)"
| "loginLoop env (PeerClose # evs) h = loginLoop env evs (closeHandler h)"
| "loginLoop env (RecvQr v # evs) h =
     (case (if qrChan_closed h then None else v) of
        None \<Rightarrow> loginLoop env evs h
      | Some qrCode \<Rightarrow> loginLoop env evs (writeJSON (codeMessage qrCode) h))"
| "loginLoop env (RecvDone # evs) h = (Returned, doneCase env h)"
| "loginLoop env (CtxDone # evs) h =
     (if cancelled h then (Returned, h) else loginLoop env evs h)"

text \<open>
  The handler after the upgrade and up to its return, without the deferred close. A failure of
  \<^verbatim>\<open>remoteauth.New\<close> is reported to the peer, and the handler goes on to dial.
\<close>

definition loginBody :: "'a collaborators \<Rightarrow> event list \<Rightarrow> 'a handshake \<Rightarrow> outcome \<times> 'a handshake" where
  "loginBody env evs h =
     (if LoggedIn env (usr h)
      then (Returned,
            writeJSON (ErrorJSON False ''You're already logged into Discord'' ''already logged in'') h)
      else
        (let h1 = called RemoteauthNew h;
             h2 = (case New env of Some err \<Rightarrow> writeJSON connectionError h1 | None \<Rightarrow> h1);
             h3 = called ClientDial h2;
             h4 = (case Dial env of
                     Some err \<Rightarrow> h3\<lparr>qrChan_closed := True, doneChan_closed := True\<rparr>
                   | None \<Rightarrow> h3)
         in loginLoop env evs h4))"

text \<open>
  The whole handler. \<open>upgraded\<close> says whether \<^verbatim>\<open>upgrader.Upgrade\<close> succeeded; when it
  did not, the handler returns with no connection. Otherwise the deferred function closes the
  connection when the handler returns.
\<close>

definition login :: "'a collaborators \<Rightarrow> bool \<Rightarrow> event list \<Rightarrow> 'a user_scheme \<Rightarrow> outcome \<times> 'a handshake" where
  "login env upgraded evs u =
     (if \<not> upgraded then (Returned, start u)
      else
        (case loginBody env evs (start u) of
           (Returned, h) \<Rightarrow> (Returned, h\<lparr>ws := ws h @ [Close]\<rparr>)
         | (Waiting, h) \<Rightarrow> (Waiting, h)))"

section \<open>A sample deployment\<close>

text \<open>
  Concrete collaborators on which the theorems below are exercised: a session counts as logged
  in when it has an identity and as connected when it has a connection; logging in needs a
  token; logging out drops the connection and reports the error of the closing socket; the
  remote client dials without error and completes as \<^verbatim>\<open>discorduser#1\<close>.
\<close>

definition sampleEnv :: "unit collaborators" where
  "sampleEnv =
     \<lparr>LoggedIn = (\<lambda>u. ID u \<noteq> []),
      Connected = (\<lambda>u. Session u \<noteq> None),
      Connect = (\<lambda>u. (None, u\<lparr>Session := Some \<lparr>LastHeartbeatAck = 0, LastHeartbeatSent = 0\<rparr>\<rparr>)),
      Disconnect = (\<lambda>u. (None, u\<lparr>Session := None\<rparr>)),
      Login = (\<lambda>token u. if token = [] then (Some ''No token specified'', u) else (None, u)),
      Logout = (\<lambda>u. (Some ''websocket: close sent'', u\<lparr>Session := None\<rparr>)),
      Update = (\<lambda>u. u),
      New = None,
      Dial = None,
      Result = Inr (''discorduser#1'', ''mfa.token'')\<rparr>"

text \<open>The same deployment when the remote service cannot be reached: the dial fails, and the
  client reports that failure as its result.\<close>

definition offlineEnv :: "unit collaborators" where
  "offlineEnv =
     sampleEnv\<lparr>Dial := Some ''dial tcp: connection refused'',
               Result := Inl ''dial tcp: connection refused''\<rparr>"

definition freshUser :: user where
  "freshUser = \<lparr>ID = [], Session = None\<rparr>"

definition knownUser :: user where
  "knownUser = \<lparr>ID = ''discorduser#1'',
                 Session = Some \<lparr>LastHeartbeatAck = 7, LastHeartbeatSent = 7\<rparr>\<rparr>"

definition loginRequest :: "string \<Rightarrow> string \<Rightarrow> request" where
  "loginRequest authorization offer =
     \<lparr>Method = ''GET'', Path = ''/_matrix/provision/v1/login'',
      Header = [''Authorization'' \<mapsto> authorization, ''Sec-WebSocket-Protocol'' \<mapsto> offer],
      Query = [''user_id'' \<mapsto> ''@u:server'']\<rparr>"

definition postRequest :: "string \<Rightarrow> (string \<rightharpoonup> string) \<Rightarrow> request" where
  "postRequest path query =
     \<lparr>Method = ''POST'', Path = path, Header = [''Authorization'' \<mapsto> ''Bearer abc''],
      Query = query\<rparr>"

section \<open>Facts about the string functions\<close>

text \<open>Splitting gives one piece more than there are separators, and cuts at the first
  separator.\<close>

lemma Split_no_sep: "sep \<notin> set s \<Longrightarrow> Split s sep = [s]"
  by (induction s) auto

lemma Split_not_Nil: "Split s sep \<noteq> []"
  by (induction s) (auto split: list.splits)

lemma Split_append: "sep \<notin> set a \<Longrightarrow> Split (a @ sep # b) sep = a # Split b sep"
  by (induction a) (auto split: list.splits)

lemma length_Split: "length (Split s sep) = Suc (count_list s sep)"
  by (induction s) (auto split: list.splits simp add: Split_not_Nil)

text \<open>Trimming removes a leading ASCII space and leaves a string alone that neither starts nor
  ends with white space.\<close>

lemma TrimLeftSpace_none: "leadingSpace wide s = 0 \<Longrightarrow> TrimLeftSpace wide s = s"
  by (simp add: TrimLeftSpace.simps)

lemma TrimLeftSpace_ascii:
  "c \<in> set asciiSpace \<Longrightarrow> TrimLeftSpace wide (c # s) = TrimLeftSpace wide s"
  by (subst TrimLeftSpace.simps) (simp add: leadingSpace_def)

lemma TrimSpace_untouched:
  "leadingSpace unicodeSpace s = 0 \<Longrightarrow> leadingSpace (map rev unicodeSpace) (rev s) = 0 \<Longrightarrow>
   TrimSpace s = s"
  by (simp add: TrimSpace_def TrimLeftSpace_none)

lemma TrimSpace_leading_ascii:
  "c \<in> set asciiSpace \<Longrightarrow> TrimSpace (c # s) = TrimSpace s"
  by (simp add: TrimSpace_def TrimLeftSpace_ascii)

section \<open>The Credential Gate\<close>

text \<open>
  Where the token comes from. A header that starts with \<^verbatim>\<open>Bearer \<close> gives what follows
  the prefix; any other header that is not empty is the token as it stands; and the offer of
  subprotocols plays no part unless the header is empty and the path ends in
  \<^verbatim>\<open>/login\<close>.
\<close>

lemma authToken_bearer:
  "header_get r ''Authorization'' = ''Bearer '' @ t \<Longrightarrow> authToken r = t"
  by (simp add: authToken_def HasPrefix_def)

lemma authToken_plain:
  "header_get r ''Authorization'' \<noteq> [] \<Longrightarrow>
   \<not> HasPrefix (header_get r ''Authorization'') ''Bearer '' \<Longrightarrow>
   authToken r = header_get r ''Authorization''"
  by (simp add: authToken_def)

text \<open>On the login route with no header the token is that of the first entry of the offer
  that carries one.\<close>

lemma scanParts_find:
  "scanParts authParts auth =
     (case find (\<lambda>part. HasPrefix (TrimSpace part) (SecWebSocketProtocol @ ''-'')) authParts of
        None \<Rightarrow> auth
      | Some part \<Rightarrow> drop (length (SecWebSocketProtocol @ ''-'')) (TrimSpace part))"
  by (induction authParts) simp_all

lemma authToken_offer:
  "header_get r ''Authorization'' = [] \<Longrightarrow> HasSuffix (Path r) ''/login'' \<Longrightarrow>
   authToken r = scanParts (Split (header_get r ''Sec-WebSocket-Protocol'') CHR '','') []"
  by (simp add: authToken_def)

lemma authToken_offer_irrelevant:
  "\<not> (header_get r ''Authorization'' = [] \<and> HasSuffix (Path r) ''/login'') \<Longrightarrow>
   authToken (r\<lparr>Header := (Header r)(''Sec-WebSocket-Protocol'' := p)\<rparr>) = authToken r"
  by (auto simp add: authToken_def header_get_def Let_def)

text \<open>
  C5. Whatever the path, when the token the request supplies (from the bearer header, or from
  the subprotocol entry on the login route) is not exactly the configured shared secret, the
  gate answers 403 with errcode \<^verbatim>\<open>M_FORBIDDEN\<close> and does nothing else: it looks no caller
  up and never invokes the wrapped handler.
\<close>

theorem gate_rejects_mismatch:
  assumes "authToken r \<noteq> SharedSecret"
  shows "authMiddleware SharedSecret h r =
           [Respond (jsonResponse 403
              (MapJSON [(''error'', JString ''Invalid auth token''),
                        (''errcode'', JString ''M_FORBIDDEN'')]))]
         \<and> (\<forall>userID. GetUserByMXID userID \<notin> set (authMiddleware SharedSecret h r))
         \<and> (\<forall>userID. ServeHTTP userID \<notin> set (authMiddleware SharedSecret h r))"
  using assms by (simp add: authMiddleware_def)

text \<open>
  A login upgrade with no \<^verbatim>\<open>Authorization\<close> header whose offer embeds the token
  \<^verbatim>\<open>abd\<close>, against the secret \<^verbatim>\<open>abc\<close>.
\<close>

theorem gate_rejects_mismatch_witness:
  "authToken (loginRequest [] ''com.gitlab.beeper.discord, com.gitlab.beeper.discord-abd'')
     \<noteq> ''abc''
   \<and> authMiddleware ''abc'' (\<lambda>userID r. Some 200)
        (loginRequest [] ''com.gitlab.beeper.discord, com.gitlab.beeper.discord-abd'') =
      [Respond (403, MapJSON [(''error'', JString ''Invalid auth token''),
                              (''errcode'', JString ''M_FORBIDDEN'')])]"
proof -
  have "authToken (loginRequest [] ''com.gitlab.beeper.discord, com.gitlab.beeper.discord-abd'')
          = ''abd''"
    by code_simp
  then have ne:
    "authToken (loginRequest [] ''com.gitlab.beeper.discord, com.gitlab.beeper.discord-abd'')
       \<noteq> ''abc''"
    by simp
  from gate_rejects_mismatch [OF ne, of "\<lambda>userID r. Some 200"] ne
  show ?thesis by (simp add: jsonResponse_def)
qed

text \<open>
  C10. The token embedded in the subprotocol offer is consulted only when the
  \<^verbatim>\<open>Authorization\<close> header is empty and the path ends in \<^verbatim>\<open>/login\<close>: in every
  other case the offer does not change the token. The prefix \<^verbatim>\<open>Bearer \<close> is stripped
  when the header has it, and a header without it is compared as it stands; so a header whose
  value is the shared secret itself (a value, hence not empty, that does not begin with
  \<^verbatim>\<open>Bearer \<close>) is accepted on every route: the caller is looked up and the wrapped
  handler is served.
\<close>

theorem gate_token_sources:
  "(\<not> (header_get r ''Authorization'' = [] \<and> HasSuffix (Path r) ''/login'') \<longrightarrow>
      authToken (r\<lparr>Header := (Header r)(''Sec-WebSocket-Protocol'' := offer)\<rparr>) = authToken r)
   \<and> (header_get r ''Authorization'' = ''Bearer '' @ t \<longrightarrow> authToken r = t)
   \<and> (header_get r ''Authorization'' = SharedSecret \<and> SharedSecret \<noteq> [] \<and>
        \<not> HasPrefix SharedSecret ''Bearer '' \<longrightarrow>
      authToken r = SharedSecret \<and>
      authMiddleware SharedSecret h r =
        [GetUserByMXID (query_get r ''user_id''), ServeHTTP (query_get r ''user_id''),
         Infofln (Method r) (Path r) (query_get r ''user_id'')
           (case h (query_get r ''user_id'') r of None \<Rightarrow> 200 | Some s \<Rightarrow> s)])"
proof (intro conjI impI)
  assume "\<not> (header_get r ''Authorization'' = [] \<and> HasSuffix (Path r) ''/login'')"
  then show
    "authToken (r\<lparr>Header := (Header r)(''Sec-WebSocket-Protocol'' := offer)\<rparr>) = authToken r"
    by (rule authToken_offer_irrelevant)
next
  assume "header_get r ''Authorization'' = ''Bearer '' @ t"
  then show "authToken r = t"
    by (rule authToken_bearer)
next
  assume "header_get r ''Authorization'' = SharedSecret \<and> SharedSecret \<noteq> [] \<and>
          \<not> HasPrefix SharedSecret ''Bearer ''"
  then show tok: "authToken r = SharedSecret"
    using authToken_plain [of r] by simp
  then show "authMiddleware SharedSecret h r =
        [GetUserByMXID (query_get r ''user_id''), ServeHTTP (query_get r ''user_id''),
         Infofln (Method r) (Path r) (query_get r ''user_id'')
           (case h (query_get r ''user_id'') r of None \<Rightarrow> 200 | Some s \<Rightarrow> s)]"
    by (simp add: authMiddleware_def Let_def)
qed

text \<open>
  The login route with the bare secret \<^verbatim>\<open>abc\<close> in the header and another token in the
  offer: the offer is not consulted and the request is served.
\<close>

theorem gate_token_sources_witness:
  "header_get (loginRequest ''abc'' ''com.gitlab.beeper.discord-zzz'') ''Authorization'' = ''abc''
   \<and> \<not> HasPrefix ''abc'' ''Bearer ''
   \<and> authToken (loginRequest ''abc'' ''com.gitlab.beeper.discord-zzz'') = ''abc''
   \<and> authToken (loginRequest ''abc'' ''com.gitlab.beeper.discord-zzz''
        \<lparr>Header := (Header (loginRequest ''abc'' ''com.gitlab.beeper.discord-zzz''))
                     (''Sec-WebSocket-Protocol'' := None)\<rparr>) = ''abc''
   \<and> authMiddleware ''abc'' (\<lambda>userID r. None)
        (loginRequest ''abc'' ''com.gitlab.beeper.discord-zzz'') =
       [GetUserByMXID ''@u:server'', ServeHTTP ''@u:server'',
        Infofln ''GET'' ''/_matrix/provision/v1/login'' ''@u:server'' 200]
   \<and> header_get (postRequest ''/_matrix/provision/v1/ping'' Map.empty) ''Authorization'' =
       ''Bearer '' @ ''abc''
   \<and> authToken (postRequest ''/_matrix/provision/v1/ping'' Map.empty) = ''abc''"
proof -
  let ?r = "loginRequest ''abc'' ''com.gitlab.beeper.discord-zzz''"
  have hd: "header_get ?r ''Authorization'' = ''abc''"
    by (simp add: loginRequest_def header_get_def)
  have np: "\<not> HasPrefix ''abc'' ''Bearer ''"
    by (simp add: HasPrefix_def)
  have q: "query_get ?r ''user_id'' = ''@u:server''" "Method ?r = ''GET''"
    "Path ?r = ''/_matrix/provision/v1/login''"
    by (simp_all add: loginRequest_def query_get_def)
  have b: "header_get (postRequest ''/_matrix/provision/v1/ping'' Map.empty) ''Authorization'' =
      ''Bearer '' @ ''abc''"
    by (simp add: postRequest_def header_get_def)
  from gate_token_sources [of ?r None "''abc''" "''abc''" "\<lambda>userID r. None"]
       gate_token_sources [of "postRequest ''/_matrix/provision/v1/ping'' Map.empty" None "''abc''"
         "''abc''" "\<lambda>userID r. None"]
       hd np q b
  show ?thesis by simp
qed

section \<open>The Command Dispatcher\<close>

text \<open>
  C7. Disconnect on a session that is not connected answers 409 and leaves the session as it
  was, invoking nothing on it; on a connected session it invokes \<^verbatim>\<open>Disconnect\<close> exactly
  once and leaves the session as that call left it. Reconnect on a connected session answers
  409 and leaves the session as it was.
\<close>

theorem toggle_conflict:
  "(\<not> Connected env u \<longrightarrow>
      disconnect env u =
        \<lparr>reply = jsonResponse 409
           (ErrorJSON False ''You're not connected to discord'' ''not connected''),
         session = u, invoked = []\<rparr>)
   \<and> (Connected env u \<longrightarrow>
        invoked (disconnect env u) = [UserDisconnect] \<and>
        count_list (invoked (disconnect env u)) UserDisconnect = 1 \<and>
        session (disconnect env u) = snd (Disconnect env u))
   \<and> (Connected env u \<longrightarrow>
        reconnect env u =
          \<lparr>reply = jsonResponse 409
             (ErrorJSON False ''You're already connected to discord'' ''already connected''),
           session = u, invoked = []\<rparr>)"
  by (simp add: disconnect_def reconnect_def split: prod.splits option.splits)

theorem toggle_conflict_witness:
  "\<not> Connected sampleEnv freshUser \<and> Connected sampleEnv knownUser
   \<and> disconnect sampleEnv freshUser =
        \<lparr>reply = (409, ErrorJSON False ''You're not connected to discord'' ''not connected''),
         session = freshUser, invoked = []\<rparr>
   \<and> invoked (disconnect sampleEnv knownUser) = [UserDisconnect]
   \<and> session (disconnect sampleEnv knownUser) = knownUser\<lparr>Session := None\<rparr>
   \<and> reconnect sampleEnv knownUser =
        \<lparr>reply = (409, ErrorJSON False ''You're already connected to discord''
                    ''already connected''),
         session = knownUser, invoked = []\<rparr>"
proof -
  have a: "\<not> Connected sampleEnv freshUser" and b: "Connected sampleEnv knownUser"
    by (simp_all add: sampleEnv_def freshUser_def knownUser_def)
  have c: "snd (Disconnect sampleEnv knownUser) = knownUser\<lparr>Session := None\<rparr>"
    by (simp add: sampleEnv_def)
  from toggle_conflict [of sampleEnv freshUser] toggle_conflict [of sampleEnv knownUser] a b c
  show ?thesis by (simp add: jsonResponse_def)
qed

text \<open>
  C8. Logout for a session that is logged in and has a connection, when
  \<^verbatim>\<open>Logout\<close> returns an error: without the \<^verbatim>\<open>force\<close> parameter the answer is 200
  with the success body (force defaults to true); with a parameter that reads
  \<^verbatim>\<open>false\<close> in any letter case the answer is 500 and carries the error's text; with any
  other parameter the answer is 200 with the success body.
\<close>

theorem logout_force:
  assumes "LoggedIn env u" and "Session u \<noteq> None" and "Logout env u = (Some err, u')"
  shows "(Query r ''force'' = None \<longrightarrow>
            reply (logout env r u) =
              jsonResponse 200 (ResponseJSON True ''Logged out successfully.''))
       \<and> (ToLower (query_get r ''force'') = ''false'' \<longrightarrow>
            reply (logout env r u) =
              jsonResponse 500
                (ErrorJSON False (''Unknown error while logging out: '' @ err) err))
       \<and> (ToLower (query_get r ''force'') \<noteq> ''false'' \<longrightarrow>
            reply (logout env r u) =
              jsonResponse 200 (ResponseJSON True ''Logged out successfully.''))
       \<and> invoked (logout env r u) = [UserLogout]"
  using assms by (auto simp add: logout_def query_get_def ToLower_def Let_def)

theorem logout_force_witness:
  "LoggedIn sampleEnv knownUser \<and> Session knownUser \<noteq> None
   \<and> Logout sampleEnv knownUser = (Some ''websocket: close sent'', knownUser\<lparr>Session := None\<rparr>)
   \<and> reply (logout sampleEnv (postRequest ''/_matrix/provision/v1/logout'' Map.empty) knownUser) =
       (200, ResponseJSON True ''Logged out successfully.'')
   \<and> reply (logout sampleEnv
        (postRequest ''/_matrix/provision/v1/logout'' [''force'' \<mapsto> ''False'']) knownUser) =
       (500, ErrorJSON False ''Unknown error while logging out: websocket: close sent''
               ''websocket: close sent'')
   \<and> reply (logout sampleEnv
        (postRequest ''/_matrix/provision/v1/logout'' [''force'' \<mapsto> ''true'']) knownUser) =
       (200, ResponseJSON True ''Logged out successfully.'')"
proof -
  have a: "LoggedIn sampleEnv knownUser" and b: "Session knownUser \<noteq> None"
    and c: "Logout sampleEnv knownUser =
              (Some ''websocket: close sent'', knownUser\<lparr>Session := None\<rparr>)"
    by (simp_all add: sampleEnv_def knownUser_def)
  have q0: "Query (postRequest ''/_matrix/provision/v1/logout'' Map.empty) ''force'' = None"
    by (simp add: postRequest_def)
  have q1: "ToLower (query_get
              (postRequest ''/_matrix/provision/v1/logout'' [''force'' \<mapsto> ''False''])
              ''force'') = ''false''"
    by code_simp
  have q2: "ToLower (query_get
              (postRequest ''/_matrix/provision/v1/logout'' [''force'' \<mapsto> ''true''])
              ''force'') \<noteq> ''false''"
    by code_simp
  from logout_force [OF a b c, of "postRequest ''/_matrix/provision/v1/logout'' Map.empty"]
       logout_force [OF a b c,
         of "postRequest ''/_matrix/provision/v1/logout'' [''force'' \<mapsto> ''False'']"]
       logout_force [OF a b c,
         of "postRequest ''/_matrix/provision/v1/logout'' [''force'' \<mapsto> ''true'']"]
       a b c q0 q1 q2
  show ?thesis by (simp add: jsonResponse_def)
qed

section \<open>The login loop\<close>

text \<open>The completion case touches neither the channels nor the context, and writes exactly one
  message, which is not a code message.\<close>

lemma doneCase_fields:
  "qrChan_closed (doneCase env h) = qrChan_closed h"
  "doneChan_closed (doneCase env h) = doneChan_closed h"
  "cancelled (doneCase env h) = cancelled h"
  by (simp_all add: doneCase_def writeJSON_def called_def Let_def split: sum.splits prod.splits option.splits)

lemma doneCase_ws:
  "\<exists>msg. ws (doneCase env h) = ws h @ [WriteJSON msg] \<and> (\<forall>qrCode. msg \<noteq> codeMessage qrCode)"
  by (simp add: doneCase_def writeJSON_def called_def Let_def codeMessage_def connectionError_def
      successMessage_def split: sum.splits prod.splits option.splits)

text \<open>The ways one event is handled.\<close>

lemma loginLoop_cases:
  obtains
    (Close) evs' where "evs = PeerClose # evs'"
      "loginLoop env evs h = loginLoop env evs' (closeHandler h)"
  | (Skip) e evs' where "evs = e # evs'" "e \<noteq> RecvDone" "e \<noteq> PeerClose"
      "e = CtxDone \<longrightarrow> \<not> cancelled h" "loginLoop env evs h = loginLoop env evs' h"
  | (Code) qrCode evs' where "evs = RecvQr (Some qrCode) # evs'" "\<not> qrChan_closed h"
      "loginLoop env evs h = loginLoop env evs' (writeJSON (codeMessage qrCode) h)"
  | (Done) evs' where "evs = RecvDone # evs'" "loginLoop env evs h = (Returned, doneCase env h)"
  | (Cancel) evs' where "evs = CtxDone # evs'" "cancelled h" "loginLoop env evs h = (Returned, h)"
  | (Empty) "evs = []" "loginLoop env evs h = (Waiting, h)"
proof (cases evs)
  case Nil
  then show ?thesis using Empty by simp
next
  case (Cons e evs')
  show ?thesis
  proof (cases e)
    case PeerClose
    with Cons show ?thesis using Close by simp
  next
    case (RecvQr v)
    show ?thesis
    proof (cases "qrChan_closed h \<or> v = None")
      case True
      with Cons RecvQr have "loginLoop env evs h = loginLoop env evs' h" by auto
      with Cons RecvQr show ?thesis using Skip [of e evs'] by simp
    next
      case False
      then obtain qrCode where "v = Some qrCode" "\<not> qrChan_closed h" by auto
      with Cons RecvQr show ?thesis using Code [of qrCode evs'] by simp
    qed
  next
    case RecvDone
    with Cons show ?thesis using Done by simp
  next
    case CtxDone
    with Cons show ?thesis using Cancel [of evs'] Skip [of e evs'] by (cases "cancelled h") simp_all
  qed
qed

lemma loginLoop_invariant:
  assumes "P h"
    and cls: "\<And>h. P h \<Longrightarrow> P (closeHandler h)"
    and cod: "\<And>h qrCode. P h \<Longrightarrow> \<not> qrChan_closed h \<Longrightarrow> P (writeJSON (codeMessage qrCode) h)"
    and fin: "\<And>h. P h \<Longrightarrow> P (doneCase env h)"
  shows "P (snd (loginLoop env evs h))"
  using assms(1)
proof (induction evs arbitrary: h)
  case Nil
  then show ?case by simp
next
  case (Cons e evs)
  show ?case
  proof (cases rule: loginLoop_cases [of "e # evs" env h])
    case (Close evs')
    with Cons.IH [of "closeHandler h"] cls [OF Cons.prems] show ?thesis by simp
  next
    case (Skip e' evs')
    with Cons.IH [of h] Cons.prems show ?thesis by simp
  next
    case (Code qrCode evs')
    with Cons.IH [of "writeJSON (codeMessage qrCode) h"] cod [OF Cons.prems] show ?thesis by simp
  next
    case (Done evs')
    with fin [OF Cons.prems] show ?thesis by simp
  next
    case (Cancel evs')
    with Cons.prems show ?thesis by simp
  next
    case Empty
    then show ?thesis by simp
  qed
qed

lemma loginLoop_ws:
  "\<exists>msgs. ws (snd (loginLoop env evs (h :: 'a handshake))) = ws h @ map WriteJSON msgs"
proof (rule loginLoop_invariant [where P = "\<lambda>h'. \<exists>msgs. ws h' = ws h @ map WriteJSON msgs"])
  show "\<exists>msgs. ws h = ws h @ map WriteJSON msgs" by simp
next
  fix h' :: "'a handshake" assume "\<exists>msgs. ws h' = ws h @ map WriteJSON msgs"
  then show "\<exists>msgs. ws (closeHandler h') = ws h @ map WriteJSON msgs"
    by (simp add: closeHandler_def)
next
  fix h' :: "'a handshake" and qrCode assume "\<exists>msgs. ws h' = ws h @ map WriteJSON msgs"
  then obtain msgs where "ws h' = ws h @ map WriteJSON msgs" ..
  then have "ws (writeJSON (codeMessage qrCode) h') = ws h @ map WriteJSON (msgs @ [codeMessage qrCode])"
    by (simp add: writeJSON_def)
  then show "\<exists>msgs. ws (writeJSON (codeMessage qrCode) h') = ws h @ map WriteJSON msgs" ..
next
  fix h' :: "'a handshake" assume "\<exists>msgs. ws h' = ws h @ map WriteJSON msgs"
  then obtain msgs where m: "ws h' = ws h @ map WriteJSON msgs" ..
  from doneCase_ws [of env h'] obtain msg where "ws (doneCase env h') = ws h' @ [WriteJSON msg]"
    by blast
  with m have "ws (doneCase env h') = ws h @ map WriteJSON (msgs @ [msg])" by simp
  then show "\<exists>msgs. ws (doneCase env h') = ws h @ map WriteJSON msgs" ..
qed

lemma loginLoop_channels:
  "qrChan_closed (snd (loginLoop env evs h)) = qrChan_closed h
   \<and> doneChan_closed (snd (loginLoop env evs h)) = doneChan_closed h"
  by (rule loginLoop_invariant
        [where P = "\<lambda>h'. qrChan_closed h' = qrChan_closed h \<and> doneChan_closed h' = doneChan_closed h"])
     (simp_all add: closeHandler_def writeJSON_def doneCase_fields)

lemma loginLoop_no_code:
  assumes "qrChan_closed (h :: 'a handshake)"
    and "\<forall>qrCode. WriteJSON (codeMessage qrCode) \<notin> set (ws h)"
  shows "\<forall>qrCode. WriteJSON (codeMessage qrCode) \<notin> set (ws (snd (loginLoop env evs h)))"
proof -
  let ?P = "\<lambda>h'. qrChan_closed h' \<and> (\<forall>qrCode. WriteJSON (codeMessage qrCode) \<notin> set (ws h'))"
  have "?P (snd (loginLoop env evs h))"
  proof (rule loginLoop_invariant [where P = ?P])
    show "?P h" using assms by simp
  next
    fix h' :: "'a handshake" assume "?P h'"
    then show "?P (closeHandler h')" by (simp add: closeHandler_def)
  next
    fix h' :: "'a handshake" and qrCode assume "?P h'" "\<not> qrChan_closed h'"
    then show "?P (writeJSON (codeMessage qrCode) h')" by simp
  next
    fix h' :: "'a handshake" assume p: "?P h'"
    from doneCase_ws [of env h'] obtain msg where
      "ws (doneCase env h') = ws h' @ [WriteJSON msg]" "\<forall>qrCode. msg \<noteq> codeMessage qrCode"
      by blast
    with p show "?P (doneCase env h')" by (auto simp add: doneCase_fields)
  qed
  then show ?thesis by simp
qed

text \<open>A schedule in which neither the completion case nor the cancellation case is taken
  leaves the handler waiting, with the session and the calls as they were.\<close>

lemma loginLoop_quiet:
  assumes "RecvDone \<notin> set xs" and "CtxDone \<notin> set xs"
  shows "fst (loginLoop env xs h) = Waiting
         \<and> usr (snd (loginLoop env xs h)) = usr h
         \<and> calls (snd (loginLoop env xs h)) = calls h
         \<and> cancelled (snd (loginLoop env xs h)) = (cancelled h \<or> PeerClose \<in> set xs)
         \<and> loginLoop env (xs @ ys) h = loginLoop env ys (snd (loginLoop env xs h))"
  using assms
proof (induction xs arbitrary: h)
  case Nil
  then show ?case by simp
next
  case (Cons e xs)
  then have rest: "RecvDone \<notin> set xs" "CtxDone \<notin> set xs" and e: "e \<noteq> RecvDone" "e \<noteq> CtxDone"
    by auto
  show ?case
  proof (cases e)
    case PeerClose
    with Cons.IH [OF rest, of "closeHandler h"] show ?thesis
      by (simp add: closeHandler_def)
  next
    case (RecvQr v)
    show ?thesis
    proof (cases "qrChan_closed h \<or> v = None")
      case True
      with RecvQr have "\<And>zs. loginLoop env (e # zs) h = loginLoop env zs h" by auto
      with Cons.IH [OF rest, of h] RecvQr show ?thesis by simp
    next
      case False
      then obtain qrCode where "v = Some qrCode" "\<not> qrChan_closed h" by auto
      with RecvQr have "\<And>zs. loginLoop env (e # zs) h =
          loginLoop env zs (writeJSON (codeMessage qrCode) h)" by simp
      with Cons.IH [OF rest, of "writeJSON (codeMessage qrCode) h"] RecvQr show ?thesis
        by (simp add: writeJSON_def)
    qed
  next
    case RecvDone
    with e show ?thesis by simp
  next
    case CtxDone
    with e show ?thesis by simp
  qed
qed

text \<open>Codes received on an open channel are forwarded in order.\<close>

lemma loginLoop_codes:
  "\<not> qrChan_closed h \<Longrightarrow>
   loginLoop env (map (\<lambda>qrCode. RecvQr (Some qrCode)) codes @ evs) h =
   loginLoop env evs (h\<lparr>ws := ws h @ map (\<lambda>qrCode. WriteJSON (codeMessage qrCode)) codes\<rparr>)"
proof (induction codes arbitrary: h)
  case Nil
  then show ?case by simp
next
  case (Cons c codes)
  from Cons.prems have "\<not> qrChan_closed (writeJSON (codeMessage c) h)"
    by (simp add: writeJSON_def)
  from Cons.IH [OF this] Cons.prems show ?case
    by (simp add: writeJSON_def)
qed

text \<open>Receives that give no value can be dropped from a schedule.\<close>

lemma loginLoop_filter:
  "loginLoop env (filter (\<lambda>e. e \<noteq> RecvQr None) evs) h = loginLoop env evs h"
proof (induction evs arbitrary: h)
  case Nil
  then show ?case by simp
next
  case (Cons e evs)
  show ?case
  proof (cases e)
    case PeerClose
    with Cons [of "closeHandler h"] show ?thesis by simp
  next
    case (RecvQr v)
    show ?thesis
    proof (cases v)
      case None
      with RecvQr Cons [of h] show ?thesis by simp
    next
      case (Some qrCode)
      with RecvQr Cons [of h] Cons [of "writeJSON (codeMessage qrCode) h"] show ?thesis
        by (cases "qrChan_closed h") simp_all
    qed
  next
    case RecvDone
    then show ?thesis by simp
  next
    case CtxDone
    with Cons [of h] show ?thesis by simp
  qed
qed

lemma loginLoop_done_returns:
  "RecvDone \<in> set evs \<Longrightarrow> fst (loginLoop env evs h) = Returned"
proof (induction evs arbitrary: h)
  case Nil
  then show ?case by simp
next
  case (Cons e evs)
  show ?case
  proof (cases rule: loginLoop_cases [of "e # evs" env h])
    case (Close evs')
    with Cons.IH [of "closeHandler h"] Cons.prems show ?thesis by simp
  next
    case (Skip e' evs')
    with Cons.IH [of h] Cons.prems show ?thesis by simp
  next
    case (Code qrCode evs')
    with Cons.IH [of "writeJSON (codeMessage qrCode) h"] Cons.prems show ?thesis by simp
  next
    case (Done evs')
    then show ?thesis by simp
  next
    case (Cancel evs')
    then show ?thesis by simp
  next
    case Empty
    then show ?thesis by simp
  qed
qed

text \<open>On a closed code channel a schedule without completion and cancellation writes nothing.\<close>

lemma loginLoop_quiet_closed:
  assumes "RecvDone \<notin> set xs" and "CtxDone \<notin> set xs" and "qrChan_closed h"
  shows "ws (snd (loginLoop env xs h)) = ws h"
  using assms
proof (induction xs arbitrary: h)
  case Nil
  then show ?case by simp
next
  case (Cons e xs)
  then have rest: "RecvDone \<notin> set xs" "CtxDone \<notin> set xs" and e: "e \<noteq> RecvDone" "e \<noteq> CtxDone"
    by auto
  show ?case
  proof (cases e)
    case PeerClose
    from Cons.prems(3) have "qrChan_closed (closeHandler h)" by (simp add: closeHandler_def)
    from Cons.IH [OF rest this] PeerClose show ?thesis by (simp add: closeHandler_def)
  next
    case (RecvQr v)
    with Cons.IH [OF rest Cons.prems(3)] Cons.prems(3) show ?thesis by simp
  next
    case RecvDone
    with e show ?thesis by simp
  next
    case CtxDone
    with e show ?thesis by simp
  qed
qed

text \<open>A completion whose result is an error, or whose login fails, writes the failure message.\<close>

lemma doneCase_fails:
  assumes "(\<exists>e. Result env = Inl e) \<or>
           (\<exists>userID token e. Result env = Inr (userID, token) \<and>
              fst (Login env token (Update env ((usr h)\<lparr>ID := userID\<rparr>))) = Some e)"
  shows "ws (doneCase env h) = ws h @ [WriteJSON connectionError]"
  using assms by (auto simp add: doneCase_def writeJSON_def called_def Let_def)

section \<open>The handler as a whole\<close>

text \<open>With no session logged in, the handler enters its loop after the two calls to the remote
  client; a failed dial has closed both channels.\<close>

lemma loginBody_loop:
  "\<not> LoggedIn env u \<Longrightarrow>
   loginBody env evs (start u) =
   loginLoop env evs
     \<lparr>usr = u, ws = (case New env of None \<Rightarrow> [] | Some err \<Rightarrow> [WriteJSON connectionError]),
      calls = [RemoteauthNew, ClientDial],
      qrChan_closed = (Dial env \<noteq> None), doneChan_closed = (Dial env \<noteq> None),
      cancelled = False\<rparr>"
  by (simp add: loginBody_def start_def called_def writeJSON_def Let_def split: option.splits)

lemma login_upgraded:
  "login env True evs u =
     (if fst (loginBody env evs (start u)) = Returned
      then (Returned, (snd (loginBody env evs (start u)))
              \<lparr>ws := ws (snd (loginBody env evs (start u))) @ [Close]\<rparr>)
      else loginBody env evs (start u))"
proof (cases "loginBody env evs (start u)")
  case (Pair out h)
  then show ?thesis by (cases out) (simp_all add: login_def)
qed

lemma loginBody_ws:
  "\<exists>msgs. ws (snd (loginBody env evs (start u))) = map WriteJSON msgs"
proof (cases "LoggedIn env u")
  case True
  then have "ws (snd (loginBody env evs (start u))) =
    map WriteJSON [ErrorJSON False ''You're already logged into Discord'' ''already logged in'']"
    by (simp add: loginBody_def start_def writeJSON_def)
  then show ?thesis ..
next
  case False
  let ?h = "\<lparr>usr = u, ws = (case New env of None \<Rightarrow> [] | Some err \<Rightarrow> [WriteJSON connectionError]),
      calls = [RemoteauthNew, ClientDial],
      qrChan_closed = (Dial env \<noteq> None), doneChan_closed = (Dial env \<noteq> None),
      cancelled = False\<rparr>"
  from loginLoop_ws [of env evs ?h] obtain msgs where
    m: "ws (snd (loginLoop env evs ?h)) = ws ?h @ map WriteJSON msgs" ..
  have "ws ?h = map WriteJSON (case New env of None \<Rightarrow> [] | Some err \<Rightarrow> [connectionError])"
    by (simp split: option.splits)
  with m have "ws (snd (loginLoop env evs ?h)) =
      map WriteJSON ((case New env of None \<Rightarrow> [] | Some err \<Rightarrow> [connectionError]) @ msgs)"
    by simp
  with loginBody_loop [OF False, of evs] show ?thesis by metis
qed

text \<open>The definitions that evaluate a run of the handler on a concrete schedule.\<close>

lemmas run_defs = login_def loginBody_def start_def writeJSON_def called_def doneCase_def
  closeHandler_def Let_def

text \<open>
  C9. A receive on the code channel that gives no value, because the channel is closed, is a
  no-op: the loop goes on with the rest of the schedule from the same state, so no message is
  sent and the handler does not return on that event; after that event alone it is still
  waiting. The same holds of every receive once the handler has closed the channel, and such
  receives can be struck from a schedule without changing the run.
\<close>

theorem closed_read_continues:
  "loginLoop env (RecvQr None # evs) h = loginLoop env evs h
   \<and> loginLoop env [RecvQr None] h = (Waiting, h)
   \<and> (qrChan_closed h \<longrightarrow> loginLoop env (RecvQr v # evs) h = loginLoop env evs h)
   \<and> loginLoop env (filter (\<lambda>e. e \<noteq> RecvQr None) evs) h = loginLoop env evs h
   \<and> login env upgraded (RecvQr None # evs) u = login env upgraded evs u"
  by (simp add: loginLoop_filter login_def loginBody_def Let_def)

text \<open>After a failed dial the code channel is closed, and receives on it change nothing.\<close>

theorem closed_read_continues_witness:
  "qrChan_closed (snd (login offlineEnv True [] freshUser))
   \<and> loginLoop offlineEnv [RecvQr (Some ''XQR1''), RecvQr None] (snd (login offlineEnv True [] freshUser)) =
       (Waiting, snd (login offlineEnv True [] freshUser))"
proof -
  have c: "qrChan_closed (snd (login offlineEnv True [] freshUser))"
    by (simp add: run_defs offlineEnv_def sampleEnv_def freshUser_def)
  from closed_read_continues [of offlineEnv "[RecvQr None]" "snd (login offlineEnv True [] freshUser)"
         "Some ''XQR1''" True freshUser]
       closed_read_continues [of offlineEnv "[]" "snd (login offlineEnv True [] freshUser)"
         None True freshUser] c
  show ?thesis by simp
qed

text \<open>
  C6. After a successful upgrade, whenever the handler returns (after success, after a
  failure, or on cancellation) the last thing done on the websocket is \<^verbatim>\<open>Close\<close>,
  after every message written; while the handler is still waiting the connection is not
  closed. The handler does return when the session is already logged in and whenever the
  completion case is taken.
\<close>

theorem connection_closed_on_exit:
  "(fst (login env True evs u) = Returned \<longrightarrow>
      (\<exists>msgs. ws (snd (login env True evs u)) = map WriteJSON msgs @ [Close]))
   \<and> (fst (login env True evs u) = Waiting \<longrightarrow> Close \<notin> set (ws (snd (login env True evs u))))
   \<and> (LoggedIn env u \<or> RecvDone \<in> set evs \<longrightarrow> fst (login env True evs u) = Returned)"
proof (intro conjI impI)
  from loginBody_ws [of env evs u] obtain msgs where
    m: "ws (snd (loginBody env evs (start u))) = map WriteJSON msgs" ..
  {
    assume "fst (login env True evs u) = Returned"
    then have "ws (snd (login env True evs u)) = map WriteJSON msgs @ [Close]"
      using m by (simp add: login_upgraded split: if_splits)
    then show "\<exists>msgs. ws (snd (login env True evs u)) = map WriteJSON msgs @ [Close]" ..
  }
  {
    assume "fst (login env True evs u) = Waiting"
    then have "ws (snd (login env True evs u)) = map WriteJSON msgs"
      using m by (simp add: login_upgraded split: if_splits)
    then show "Close \<notin> set (ws (snd (login env True evs u)))" by auto
  }
  {
    assume a: "LoggedIn env u \<or> RecvDone \<in> set evs"
    show "fst (login env True evs u) = Returned"
    proof (cases "LoggedIn env u")
      case True
      then show ?thesis by (simp add: login_upgraded loginBody_def start_def)
    next
      case False
      with a have "RecvDone \<in> set evs" by simp
      then show ?thesis
        using loginBody_loop [OF False, of evs] by (simp add: login_upgraded loginLoop_done_returns)
    qed
  }
qed

text \<open>A run that ends in success, and a run that is still waiting after its first code.\<close>

theorem connection_closed_on_exit_witness:
  "fst (login sampleEnv True [RecvQr (Some ''XQR1''), RecvDone] freshUser) = Returned
   \<and> ws (snd (login sampleEnv True [RecvQr (Some ''XQR1''), RecvDone] freshUser)) =
       map WriteJSON [codeMessage ''XQR1'', successMessage ''discorduser#1''] @ [Close]
   \<and> fst (login sampleEnv True [RecvQr (Some ''XQR1'')] freshUser) = Waiting
   \<and> Close \<notin> set (ws (snd (login sampleEnv True [RecvQr (Some ''XQR1'')] freshUser)))"
proof -
  have r: "fst (login sampleEnv True [RecvQr (Some ''XQR1''), RecvDone] freshUser) = Returned"
    and w: "fst (login sampleEnv True [RecvQr (Some ''XQR1'')] freshUser) = Waiting"
    and m: "ws (snd (login sampleEnv True [RecvQr (Some ''XQR1''), RecvDone] freshUser)) =
       map WriteJSON [codeMessage ''XQR1'', successMessage ''discorduser#1''] @ [Close]"
    by (simp_all add: run_defs sampleEnv_def freshUser_def)
  from connection_closed_on_exit [of sampleEnv "[RecvQr (Some ''XQR1''), RecvDone]" freshUser]
       connection_closed_on_exit [of sampleEnv "[RecvQr (Some ''XQR1'')]" freshUser] r w m
  show ?thesis by simp
qed

text \<open>
  C3. With a successful dial, any sequence of codes followed by a completion whose result
  carries no error and whose login succeeds: the peer gets one code message (code and timeout
  120) per code, in the order of the codes, then exactly one success message carrying the
  identity of the session as committed, then the connection is closed; whatever the schedule
  holds after the completion has no effect.
\<close>

theorem codes_then_success:
  assumes "\<not> LoggedIn env u" and "New env = None" and "Dial env = None"
    and "Result env = Inr (userID, token)"
    and "Login env token (Update env (u\<lparr>ID := userID\<rparr>)) = (None, u')"
  shows "login env True (map (\<lambda>qrCode. RecvQr (Some qrCode)) codes @ RecvDone # rest) u =
           (Returned,
            \<lparr>usr = u',
             ws = map (\<lambda>qrCode. WriteJSON (codeMessage qrCode)) codes @
                  [WriteJSON (successMessage (ID u')), Close],
             calls = [RemoteauthNew, ClientDial, ClientResult, UserUpdate, UserLogin token],
             qrChan_closed = False, doneChan_closed = False, cancelled = False\<rparr>)"
proof -
  let ?h = "\<lparr>usr = u, ws = [], calls = [RemoteauthNew, ClientDial],
      qrChan_closed = False, doneChan_closed = False, cancelled = False\<rparr>"
  have body: "loginBody env (map (\<lambda>qrCode. RecvQr (Some qrCode)) codes @ RecvDone # rest) (start u) =
      loginLoop env (map (\<lambda>qrCode. RecvQr (Some qrCode)) codes @ RecvDone # rest) ?h"
    using loginBody_loop [OF assms(1)] assms(2,3) by simp
  have "\<not> qrChan_closed ?h" by simp
  from loginLoop_codes [OF this, of env codes "RecvDone # rest"]
  have "loginLoop env (map (\<lambda>qrCode. RecvQr (Some qrCode)) codes @ RecvDone # rest) ?h =
      (Returned, doneCase env (?h\<lparr>ws := map (\<lambda>qrCode. WriteJSON (codeMessage qrCode)) codes\<rparr>))"
    by simp
  also have "doneCase env (?h\<lparr>ws := map (\<lambda>qrCode. WriteJSON (codeMessage qrCode)) codes\<rparr>) =
      \<lparr>usr = u',
       ws = map (\<lambda>qrCode. WriteJSON (codeMessage qrCode)) codes @ [WriteJSON (successMessage (ID u'))],
       calls = [RemoteauthNew, ClientDial, ClientResult, UserUpdate, UserLogin token],
       qrChan_closed = False, doneChan_closed = False, cancelled = False\<rparr>"
    using assms(4,5) by (simp add: doneCase_def called_def writeJSON_def Let_def)
  finally show ?thesis using body by (simp add: login_upgraded)
qed

text \<open>One code \<^verbatim>\<open>XQR1\<close>, then completion as \<^verbatim>\<open>discorduser#1\<close>.\<close>

theorem codes_then_success_witness:
  "\<not> LoggedIn sampleEnv freshUser \<and> New sampleEnv = None \<and> Dial sampleEnv = None
   \<and> Result sampleEnv = Inr (''discorduser#1'', ''mfa.token'')
   \<and> login sampleEnv True [RecvQr (Some ''XQR1''), RecvDone] freshUser =
       (Returned,
        \<lparr>usr = \<lparr>ID = ''discorduser#1'', Session = None\<rparr>,
         ws = [WriteJSON (MapJSON [(''code'', JString ''XQR1''), (''timeout'', JNumber 120)]),
               WriteJSON (MapJSON [(''success'', JBool True), (''id'', JString ''discorduser#1'')]),
               Close],
         calls = [RemoteauthNew, ClientDial, ClientResult, UserUpdate, UserLogin ''mfa.token''],
         qrChan_closed = False, doneChan_closed = False, cancelled = False\<rparr>)"
proof -
  have a: "\<not> LoggedIn sampleEnv freshUser" "New sampleEnv = None" "Dial sampleEnv = None"
    "Result sampleEnv = Inr (''discorduser#1'', ''mfa.token'')"
    "Login sampleEnv ''mfa.token'' (Update sampleEnv (freshUser\<lparr>ID := ''discorduser#1''\<rparr>)) =
       (None, \<lparr>ID = ''discorduser#1'', Session = None\<rparr>)"
    by (simp_all add: sampleEnv_def freshUser_def)
  from codes_then_success [OF a, of "[''XQR1'']" "[]"] a
  show ?thesis by (simp add: codeMessage_def successMessage_def)
qed

text \<open>
  C2, as the handler has it. When the session is logged in at the request, the handler calls
  nothing on the remote client (no dial), returns at once whatever the schedule, writes exactly
  one failure message, and the connection is then closed. The cause the message carries is
  the errcode \<^verbatim>\<open>already logged in\<close>.
\<close>

theorem already_logged_in:
  assumes "LoggedIn env u"
  shows "login env True evs u =
           (Returned,
            \<lparr>usr = u,
             ws = [WriteJSON (ErrorJSON False ''You're already logged into Discord''
                                ''already logged in''), Close],
             calls = [], qrChan_closed = False, doneChan_closed = False, cancelled = False\<rparr>)"
  using assms by (simp add: login_def loginBody_def start_def writeJSON_def)

theorem already_logged_in_witness:
  "LoggedIn sampleEnv knownUser
   \<and> login sampleEnv True [RecvQr (Some ''XQR1''), RecvDone] knownUser =
       (Returned,
        \<lparr>usr = knownUser,
         ws = [WriteJSON (ErrorJSON False ''You're already logged into Discord''
                            ''already logged in''), Close],
         calls = [], qrChan_closed = False, doneChan_closed = False, cancelled = False\<rparr>)"
proof -
  have a: "LoggedIn sampleEnv knownUser"
    by (simp add: sampleEnv_def knownUser_def)
  from already_logged_in [OF a, of "[RecvQr (Some ''XQR1''), RecvDone]"] a
  show ?thesis by simp
qed

text \<open>
  C2 as stated names the cause \<^verbatim>\<open>already authenticated\<close>; the message the handler
  writes carries \<^verbatim>\<open>already logged in\<close>.
\<close>

theorem already_authenticated_counterexample:
  "ws (snd (login sampleEnv True [] knownUser)) =
     [WriteJSON (ErrorJSON False ''You're already logged into Discord'' ''already logged in''),
      Close]
   \<and> ws (snd (login sampleEnv True [] knownUser)) \<noteq>
     [WriteJSON (ErrorJSON False ''You're already logged into Discord''
                   ''already authenticated''), Close]"
  by (simp add: login_def loginBody_def start_def writeJSON_def sampleEnv_def knownUser_def)

text \<open>
  C4, as the handler has it. The peer closes the connection with a close frame while the
  handshake has not completed: before the close the handler is waiting and \<open>ctx\<close> is not
  cancelled; the close handler cancels \<open>ctx\<close>; and if the wait then takes the cancellation
  case before it takes a completion case, the handler returns with the state it was waiting in
  and only closes the connection: no message is written after the cancellation is observed,
  the session is the one the request came with, and no operation on the session or on the
  result of the remote client has been invoked. The \<^verbatim>\<open>select\<close> gives cancellation no
  priority: which case it takes when both are ready is not in the handler's hands.
\<close>

theorem cancellation_before_completion:
  assumes "\<not> LoggedIn env u"
    and "RecvDone \<notin> set pre" and "CtxDone \<notin> set pre" and "PeerClose \<notin> set pre"
    and "RecvDone \<notin> set mid" and "CtxDone \<notin> set mid"
  shows "fst (login env True pre u) = Waiting \<and> \<not> cancelled (snd (login env True pre u))
       \<and> fst (login env True (pre @ PeerClose # mid) u) = Waiting
       \<and> cancelled (snd (login env True (pre @ PeerClose # mid) u))
       \<and> login env True (pre @ PeerClose # mid @ CtxDone # rest) u =
           (Returned, (snd (login env True (pre @ PeerClose # mid) u))
              \<lparr>ws := ws (snd (login env True (pre @ PeerClose # mid) u)) @ [Close]\<rparr>)
       \<and> usr (snd (login env True (pre @ PeerClose # mid @ CtxDone # rest) u)) = u
       \<and> calls (snd (login env True (pre @ PeerClose # mid @ CtxDone # rest) u)) =
           [RemoteauthNew, ClientDial]"
proof -
  let ?h = "\<lparr>usr = u, ws = (case New env of None \<Rightarrow> [] | Some err \<Rightarrow> [WriteJSON connectionError]),
      calls = [RemoteauthNew, ClientDial],
      qrChan_closed = (Dial env \<noteq> None), doneChan_closed = (Dial env \<noteq> None),
      cancelled = False\<rparr>"
  let ?xs = "pre @ PeerClose # mid"
  have body: "\<And>evs. loginBody env evs (start u) = loginLoop env evs ?h"
    by (rule loginBody_loop [OF assms(1)])
  from loginLoop_quiet [OF assms(2,3), of env ?h "[]"] assms(4)
  have p: "fst (loginLoop env pre ?h) = Waiting" "\<not> cancelled (snd (loginLoop env pre ?h))"
    by simp_all
  have q: "RecvDone \<notin> set ?xs" "CtxDone \<notin> set ?xs"
    using assms by simp_all
  from loginLoop_quiet [OF q, of env ?h "CtxDone # rest"]
  have w: "fst (loginLoop env ?xs ?h) = Waiting" "cancelled (snd (loginLoop env ?xs ?h))"
    "usr (snd (loginLoop env ?xs ?h)) = u"
    "calls (snd (loginLoop env ?xs ?h)) = [RemoteauthNew, ClientDial]"
    "loginLoop env (?xs @ CtxDone # rest) ?h = (Returned, snd (loginLoop env ?xs ?h))"
    by simp_all
  have l0: "login env True pre u = loginLoop env pre ?h"
    using p(1) by (simp add: login_upgraded body)
  have l1: "login env True ?xs u = loginLoop env ?xs ?h"
    using w(1) by (simp add: login_upgraded body)
  have l2: "login env True (?xs @ CtxDone # rest) u =
      (Returned, (snd (loginLoop env ?xs ?h))\<lparr>ws := ws (snd (loginLoop env ?xs ?h)) @ [Close]\<rparr>)"
    using w(5) by (simp add: login_upgraded body)
  from l0 l1 l2 p w show ?thesis by simp
qed

theorem cancellation_before_completion_witness:
  "\<not> LoggedIn sampleEnv freshUser
   \<and> login sampleEnv True [RecvQr (Some ''XQR1'')] freshUser =
       (Waiting,
        \<lparr>usr = freshUser, ws = [WriteJSON (codeMessage ''XQR1'')],
         calls = [RemoteauthNew, ClientDial],
         qrChan_closed = False, doneChan_closed = False, cancelled = False\<rparr>)
   \<and> login sampleEnv True [RecvQr (Some ''XQR1''), PeerClose, RecvQr (Some ''XQR2'')] freshUser =
       (Waiting,
        \<lparr>usr = freshUser, ws = [WriteJSON (codeMessage ''XQR1''), WriteJSON (codeMessage ''XQR2'')],
         calls = [RemoteauthNew, ClientDial],
         qrChan_closed = False, doneChan_closed = False, cancelled = True\<rparr>)
   \<and> login sampleEnv True
        [RecvQr (Some ''XQR1''), PeerClose, RecvQr (Some ''XQR2''), CtxDone, RecvDone] freshUser =
       (Returned,
        \<lparr>usr = freshUser,
         ws = [WriteJSON (codeMessage ''XQR1''), WriteJSON (codeMessage ''XQR2''), Close],
         calls = [RemoteauthNew, ClientDial],
         qrChan_closed = False, doneChan_closed = False, cancelled = True\<rparr>)"
proof -
  have a: "\<not> LoggedIn sampleEnv freshUser"
    by (simp add: sampleEnv_def freshUser_def)
  have pre: "RecvDone \<notin> set [RecvQr (Some ''XQR1'')]" "CtxDone \<notin> set [RecvQr (Some ''XQR1'')]"
    "PeerClose \<notin> set [RecvQr (Some ''XQR1'')]"
    and mid: "RecvDone \<notin> set [RecvQr (Some ''XQR2'')]" "CtxDone \<notin> set [RecvQr (Some ''XQR2'')]"
    by simp_all
  have w: "login sampleEnv True [RecvQr (Some ''XQR1''), PeerClose, RecvQr (Some ''XQR2'')] freshUser =
       (Waiting,
        \<lparr>usr = freshUser, ws = [WriteJSON (codeMessage ''XQR1''), WriteJSON (codeMessage ''XQR2'')],
         calls = [RemoteauthNew, ClientDial],
         qrChan_closed = False, doneChan_closed = False, cancelled = True\<rparr>)"
    by (simp add: run_defs sampleEnv_def freshUser_def)
  have w0: "login sampleEnv True [RecvQr (Some ''XQR1'')] freshUser =
       (Waiting,
        \<lparr>usr = freshUser, ws = [WriteJSON (codeMessage ''XQR1'')],
         calls = [RemoteauthNew, ClientDial],
         qrChan_closed = False, doneChan_closed = False, cancelled = False\<rparr>)"
    by (simp add: run_defs sampleEnv_def freshUser_def)
  from cancellation_before_completion [OF a pre mid, of "[RecvDone]"] a w w0
  show ?thesis by simp
qed

text \<open>
  C4 as stated promises that a close before completion ends the handshake as cancelled with
  the session unchanged. Here the peer closes, the close handler cancels \<open>ctx\<close>, the completion
  signal is ready as well and the wait takes the completion case: the handler commits the
  identity to the session, logs in and writes a success message after the token has fired.
\<close>

theorem cancellation_race_counterexample:
  "login sampleEnv True [PeerClose, RecvDone] freshUser =
     (Returned,
      \<lparr>usr = \<lparr>ID = ''discorduser#1'', Session = None\<rparr>,
       ws = [WriteJSON (MapJSON [(''success'', JBool True), (''id'', JString ''discorduser#1'')]),
             Close],
       calls = [RemoteauthNew, ClientDial, ClientResult, UserUpdate, UserLogin ''mfa.token''],
       qrChan_closed = False, doneChan_closed = False, cancelled = True\<rparr>)
   \<and> usr (snd (login sampleEnv True [PeerClose, RecvDone] freshUser)) \<noteq> freshUser"
  by (simp add: run_defs successMessage_def sampleEnv_def freshUser_def)

text \<open>
  C1, as the handler has it. When the dial fails (the remote client having been created),
  both channels are closed at once and stay closed, and no code message is ever written,
  whatever the schedule. The handler then waits like after any dial. If the completion case
  is taken first and the result of the remote client is an error, or the login with its token
  fails, the peer gets exactly one failure message with errcode \<^verbatim>\<open>connection error\<close>
  and the connection is closed. If the peer has closed and the cancellation case is taken
  first, nothing is written before the connection is closed.
\<close>

theorem dial_error_fast_fail:
  assumes "\<not> LoggedIn env u" and "New env = None" and "Dial env = Some err"
  shows "qrChan_closed (snd (login env True evs u)) \<and> doneChan_closed (snd (login env True evs u))
       \<and> (\<forall>qrCode. WriteJSON (codeMessage qrCode) \<notin> set (ws (snd (login env True evs u))))
       \<and> (RecvDone \<notin> set pre \<and> CtxDone \<notin> set pre \<and>
            ((\<exists>e. Result env = Inl e) \<or>
             (\<exists>userID token e. Result env = Inr (userID, token) \<and>
                fst (Login env token (Update env (u\<lparr>ID := userID\<rparr>))) = Some e)) \<longrightarrow>
          fst (login env True (pre @ RecvDone # rest) u) = Returned \<and>
          ws (snd (login env True (pre @ RecvDone # rest) u)) = [WriteJSON connectionError, Close])
       \<and> (RecvDone \<notin> set pre \<and> CtxDone \<notin> set pre \<and> RecvDone \<notin> set mid \<and> CtxDone \<notin> set mid \<longrightarrow>
          fst (login env True (pre @ PeerClose # mid @ CtxDone # rest) u) = Returned \<and>
          ws (snd (login env True (pre @ PeerClose # mid @ CtxDone # rest) u)) = [Close])"
proof -
  let ?h = "\<lparr>usr = u, ws = [], calls = [RemoteauthNew, ClientDial],
      qrChan_closed = True, doneChan_closed = True, cancelled = False\<rparr>"
  have body: "\<And>evs. loginBody env evs (start u) = loginLoop env evs ?h"
    using loginBody_loop [OF assms(1)] assms(2,3) by simp
  have login_ws: "\<And>evs. ws (snd (login env True evs u)) =
      ws (snd (loginLoop env evs ?h)) @ (if fst (loginLoop env evs ?h) = Returned then [Close] else [])"
    by (simp add: login_upgraded body)
  have login_fst: "\<And>evs. fst (login env True evs u) = fst (loginLoop env evs ?h)"
    by (simp add: login_upgraded body)
  have chans: "qrChan_closed (snd (login env True evs u)) \<and> doneChan_closed (snd (login env True evs u))"
    using loginLoop_channels [of env evs ?h] by (simp add: login_upgraded body)
  have "\<forall>qrCode. WriteJSON (codeMessage qrCode) \<notin> set (ws (snd (loginLoop env evs ?h)))"
    by (rule loginLoop_no_code) simp_all
  then have nocode: "\<forall>qrCode. WriteJSON (codeMessage qrCode) \<notin> set (ws (snd (login env True evs u)))"
    by (simp add: login_ws)
  have fail: "fst (login env True (pre @ RecvDone # rest) u) = Returned \<and>
          ws (snd (login env True (pre @ RecvDone # rest) u)) = [WriteJSON connectionError, Close]"
    if q: "RecvDone \<notin> set pre" "CtxDone \<notin> set pre"
      and f: "(\<exists>e. Result env = Inl e) \<or>
             (\<exists>userID token e. Result env = Inr (userID, token) \<and>
                fst (Login env token (Update env (u\<lparr>ID := userID\<rparr>))) = Some e)"
  proof -
    let ?h1 = "snd (loginLoop env pre ?h)"
    from loginLoop_quiet [OF q, of env ?h "RecvDone # rest"]
    have u1: "usr ?h1 = u"
      and run: "loginLoop env (pre @ RecvDone # rest) ?h = (Returned, doneCase env ?h1)"
      by simp_all
    from loginLoop_quiet_closed [OF q, of ?h env] have w1: "ws ?h1 = []" by simp
    from f u1 have "ws (doneCase env ?h1) = ws ?h1 @ [WriteJSON connectionError]"
      by (intro doneCase_fails) simp
    with w1 run show ?thesis by (simp add: login_ws login_fst)
  qed
  have cancel: "fst (login env True (pre @ PeerClose # mid @ CtxDone # rest) u) = Returned \<and>
          ws (snd (login env True (pre @ PeerClose # mid @ CtxDone # rest) u)) = [Close]"
    if q: "RecvDone \<notin> set pre" "CtxDone \<notin> set pre" "RecvDone \<notin> set mid" "CtxDone \<notin> set mid"
  proof -
    let ?xs = "pre @ PeerClose # mid"
    have qq: "RecvDone \<notin> set ?xs" "CtxDone \<notin> set ?xs" using q by simp_all
    from loginLoop_quiet [OF qq, of env ?h "CtxDone # rest"]
    have run: "loginLoop env (?xs @ CtxDone # rest) ?h = (Returned, snd (loginLoop env ?xs ?h))"
      by simp
    from loginLoop_quiet_closed [OF qq, of ?h env] have "ws (snd (loginLoop env ?xs ?h)) = []"
      by simp
    with run show ?thesis
      using login_ws [of "?xs @ CtxDone # rest"] login_fst [of "?xs @ CtxDone # rest"] by simp
  qed
  from chans nocode fail cancel show ?thesis by blast
qed

theorem dial_error_fast_fail_witness:
  "\<not> LoggedIn offlineEnv freshUser \<and> New offlineEnv = None
   \<and> Dial offlineEnv = Some ''dial tcp: connection refused''
   \<and> Result offlineEnv = Inl ''dial tcp: connection refused''
   \<and> qrChan_closed (snd (login offlineEnv True [] freshUser))
   \<and> doneChan_closed (snd (login offlineEnv True [] freshUser))
   \<and> fst (login offlineEnv True [RecvQr None, RecvQr None, RecvDone] freshUser) = Returned
   \<and> ws (snd (login offlineEnv True [RecvQr None, RecvQr None, RecvDone] freshUser)) =
       [WriteJSON connectionError, Close]
   \<and> ws (snd (login offlineEnv True [RecvQr None, PeerClose, RecvQr None, CtxDone] freshUser)) =
       [Close]"
proof -
  have a: "\<not> LoggedIn offlineEnv freshUser" "New offlineEnv = None"
    "Dial offlineEnv = Some ''dial tcp: connection refused''"
    by (simp_all add: offlineEnv_def sampleEnv_def freshUser_def)
  have r: "Result offlineEnv = Inl ''dial tcp: connection refused''"
    by (simp add: offlineEnv_def sampleEnv_def)
  have q: "RecvDone \<notin> set [RecvQr None, RecvQr None]" "CtxDone \<notin> set [RecvQr None, RecvQr None]"
    "RecvDone \<notin> set [RecvQr None]" "CtxDone \<notin> set [RecvQr None]"
    by simp_all
  from dial_error_fast_fail [OF a, of "[]" "[RecvQr None, RecvQr None]" "[]" "[]"]
       dial_error_fast_fail [OF a, of "[]" "[RecvQr None]" "[]" "[RecvQr None]"]
       a r q
  show ?thesis by simp
qed

text \<open>
  C1 as stated promises one failure message after every failed dial. Here the dial fails, the
  peer closes, and the wait takes the cancellation case: the handler returns and the peer has
  been sent nothing.
\<close>

theorem dial_error_counterexample:
  "Dial offlineEnv = Some ''dial tcp: connection refused''
   \<and> login offlineEnv True [PeerClose, CtxDone] freshUser =
       (Returned,
        \<lparr>usr = freshUser, ws = [Close], calls = [RemoteauthNew, ClientDial],
         qrChan_closed = True, doneChan_closed = True, cancelled = True\<rparr>)"
  by (simp add: run_defs offlineEnv_def sampleEnv_def freshUser_def)

end
